theory Spec2Isabelle
  imports Complex_Main "HOL-Library.Finite_Map"
begin

text \<open>
  XPMailer wraps the mail transport of nodemailer: \<open>initialize\<close> normalises the options
  and creates the transport, \<open>send\<close> validates a mail, fills in the default sender and
  hands the mail to the transport. This theory embeds both, from the class as it is
  written with a default sender (\<open>noreply\<close>), and \<open>send\<close> of the first release
  (\<open>lib/index.js\<close>) beside it.
\<close>

section \<open>JavaScript values\<close>

text \<open>
  The mailer is dynamically typed: a mail, its fields, the attachments and every
  configuration option can be any JavaScript value. Objects are finite maps from
  property names to values; a property that is absent reads as \<open>undefined\<close>.
  \<open>Func\<close> stands for functions and every other value that is neither a primitive, an
  array nor a plain object.
\<close>

datatype jsval =
    Undefined
  | Null
  | Bool bool
  | Num rat
  | NaN
  | Str string
  | Arr "jsval list"
  | Obj "(string, jsval) fmap"
  | Func string

type_synonym jsobject = "(string, jsval) fmap"

text \<open>Truthiness, as \<open>!v\<close>, \<open>a || b\<close> and \<open>a && b\<close> test it.\<close>

fun truthy :: "jsval \<Rightarrow> bool" where
  "truthy Undefined = False"
| "truthy Null = False"
| "truthy (Bool b) = b"
| "truthy (Num r) = (r \<noteq> 0)"
| "truthy NaN = False"
| "truthy (Str s) = (s \<noteq> [])"
| "truthy (Arr xs) = True"
| "truthy (Obj m) = True"
| "truthy (Func f) = True"

definition or_js :: "jsval \<Rightarrow> jsval \<Rightarrow> jsval" where
  "or_js a b = (if truthy a then a else b)"

definition and_js :: "jsval \<Rightarrow> jsval \<Rightarrow> jsval" where
  "and_js a b = (if truthy a then b else a)"

definition Boolean :: "jsval \<Rightarrow> jsval" where
  "Boolean v = Bool (truthy v)"

text \<open>Property read \<open>v.k\<close> and property write \<open>v.k = x\<close> on a value that is an object.\<close>

definition get :: "jsobject \<Rightarrow> string \<Rightarrow> jsval" where
  "get obj k = (case fmlookup obj k of None \<Rightarrow> Undefined | Some v \<Rightarrow> v)"

fun member :: "jsval \<Rightarrow> string \<Rightarrow> jsval" where
  "member (Obj m) k = get m k"
| "member v k = Undefined"

fun put :: "jsval \<Rightarrow> string \<Rightarrow> jsval \<Rightarrow> jsval" where
  "put (Obj m) k x = Obj (fmupd k x m)"
| "put v k x = v"

fun own_properties :: "jsval \<Rightarrow> jsobject" where
  "own_properties (Obj m) = m"
| "own_properties v = fmempty"

text \<open>\<open>Object.assign(target, s1, s2, ...)\<close>: later sources override earlier ones.\<close>

definition object_assign :: "jsobject \<Rightarrow> jsobject list \<Rightarrow> jsobject" where
  "object_assign target sources = foldl (\<lambda>t s. t ++\<^sub>f s) target sources"

section \<open>The helpers of the expandjs library\<close>

text \<open>
  Modelled from the spec: the predicates \<open>XP.isVoid\<close>, \<open>XP.isDefined\<close>, \<open>XP.isObject\<close>,
  \<open>XP.isArray\<close>, \<open>XP.isString\<close> and \<open>XP.isInt\<close> belong to the expandjs library, which is
  required by the mailer and is not among its sources. They follow the words of the
  specification: a value is "present" when it is neither \<open>null\<close> nor \<open>undefined\<close>, a
  "structured object" is a plain object, an "ordered sequence" is an array, and the
  second argument \<open>true\<close> of \<open>isString\<close> asks for a non-empty string (of \<open>isInt\<close>: for a
  non-negative integer). A field "holds a defined value" when it is not \<open>undefined\<close>.
\<close>

definition isVoid :: "jsval \<Rightarrow> bool" where
  "isVoid v = (v = Null \<or> v = Undefined)"

definition isDefined :: "jsval \<Rightarrow> bool" where
  "isDefined v = (v \<noteq> Undefined)"

fun isObject :: "jsval \<Rightarrow> bool" where
  "isObject (Obj m) = True"
| "isObject v = False"

fun isArray :: "jsval \<Rightarrow> bool" where
  "isArray (Arr xs) = True"
| "isArray v = False"

fun isString :: "jsval \<Rightarrow> jsval \<Rightarrow> bool" where
  "isString (Str s) notEmpty = (isVoid notEmpty \<or> notEmpty = Bool (s \<noteq> []))"
| "isString v notEmpty = False"

fun isInt :: "jsval \<Rightarrow> jsval \<Rightarrow> bool" where
  "isInt (Num r) notNegative =
     (of_int \<lfloor>r\<rfloor> = r \<and> (isVoid notNegative \<or> notNegative = Bool (0 \<le> r)))"
| "isInt v notNegative = False"

section \<open>Errors\<close>

text \<open>
  \<open>new XP.ValidationError(key, type)\<close> carries the path of the offending field and the
  type that was expected. \<open>XPError\<close> is the \<open>XP.error(code, message)\<close> of the first
  release. Whatever the mail transport throws or reports is a \<open>TransportError\<close>.
\<close>

datatype js_error =
    ValidationError string string
  | XPError nat string
  | TransportError jsval

definition then_do :: "js_error + 'a \<Rightarrow> ('a \<Rightarrow> js_error + 'b) \<Rightarrow> js_error + 'b" where
  "then_do r f = (case r of Inl e \<Rightarrow> Inl e | Inr x \<Rightarrow> f x)"

section \<open>The class XPMailer: its properties\<close>

text \<open>
  An instance stores the plain field \<open>options\<close> and one value for each property the
  class declares. A fresh instance holds \<open>undefined\<close> everywhere.
\<close>

record mailer =
  options :: jsval
  auth :: jsval
  hostname :: jsval
  name :: jsval
  noreply :: jsval
  port :: jsval
  secure :: jsval
  tls :: jsval
  transporter :: jsval

definition fresh :: mailer where
  "fresh = \<lparr> options = Undefined, auth = Undefined, hostname = Undefined,
             name = Undefined, noreply = Undefined, port = Undefined,
             secure = Undefined, tls = Undefined, transporter = Undefined \<rparr>"

text \<open>The \<open>set\<close> and \<open>validate\<close> functions of each property, lines 112 to 194.\<close>

definition auth_set :: "mailer \<Rightarrow> jsval \<Rightarrow> jsval" where
  "auth_set this val = or_js (auth this) val"

definition auth_validate :: "jsval \<Rightarrow> jsval" where
  "auth_validate val = and_js (Bool (\<not> isObject val)) (Str ''Object'')"

definition hostname_set :: "mailer \<Rightarrow> jsval \<Rightarrow> jsval" where
  "hostname_set this val = or_js (hostname this) val"

definition hostname_validate :: "jsval \<Rightarrow> jsval" where
  "hostname_validate val = and_js (Bool (\<not> isString val Undefined)) (Str ''string'')"

definition name_set :: "mailer \<Rightarrow> jsval \<Rightarrow> jsval" where
  "name_set this val = (if isDefined (name this) then name this else val)"

definition name_validate :: "jsval \<Rightarrow> jsval" where
  "name_validate val =
     and_js (and_js (Bool (\<not> isVoid val)) (Bool (\<not> isString val Undefined))) (Str ''string'')"

definition noreply_set :: "mailer \<Rightarrow> jsval \<Rightarrow> jsval" where
  "noreply_set this val = (if isDefined (noreply this) then noreply this else val)"

definition noreply_validate :: "jsval \<Rightarrow> jsval" where
  "noreply_validate val =
     and_js (and_js (Bool (\<not> isVoid val)) (Bool (\<not> isString val Undefined))) (Str ''string'')"

definition port_set :: "mailer \<Rightarrow> jsval \<Rightarrow> jsval" where
  "port_set this val = (if isDefined (port this) then port this else val)"

definition port_validate :: "jsval \<Rightarrow> jsval" where
  "port_validate val =
     and_js (and_js (Bool (\<not> isVoid val)) (Bool (\<not> isInt val (Bool True)))) (Str ''number'')"

definition secure_set :: "mailer \<Rightarrow> jsval \<Rightarrow> jsval" where
  "secure_set this val = (if isDefined (secure this) then secure this else Boolean val)"

definition tls_set :: "mailer \<Rightarrow> jsval \<Rightarrow> jsval" where
  "tls_set this val = or_js (tls this) val"

definition tls_validate :: "jsval \<Rightarrow> jsval" where
  "tls_validate val =
     and_js (and_js (Bool (\<not> isVoid val)) (Bool (\<not> isObject val))) (Str ''Object'')"

definition transporter_set :: "mailer \<Rightarrow> jsval \<Rightarrow> jsval" where
  "transporter_set this val = or_js (transporter this) val"

definition transporter_validate :: "jsval \<Rightarrow> jsval" where
  "transporter_validate val = and_js (Bool (\<not> isObject val)) (Str ''Object'')"

text \<open>The table of the declared properties: name, stored value, \<open>set\<close> and \<open>validate\<close>.\<close>

datatype property = Auth | Hostname | Name | Noreply | Port | Secure | Tls | Transporter

fun prop_key :: "property \<Rightarrow> string" where
  "prop_key Auth = ''auth''"
| "prop_key Hostname = ''hostname''"
| "prop_key Name = ''name''"
| "prop_key Noreply = ''noreply''"
| "prop_key Port = ''port''"
| "prop_key Secure = ''secure''"
| "prop_key Tls = ''tls''"
| "prop_key Transporter = ''transporter''"

fun prop_value :: "property \<Rightarrow> mailer \<Rightarrow> jsval" where
  "prop_value Auth this = auth this"
| "prop_value Hostname this = hostname this"
| "prop_value Name this = name this"
| "prop_value Noreply this = noreply this"
| "prop_value Port this = port this"
| "prop_value Secure this = secure this"
| "prop_value Tls this = tls this"
| "prop_value Transporter this = transporter this"

fun prop_store :: "property \<Rightarrow> jsval \<Rightarrow> mailer \<Rightarrow> mailer" where
  "prop_store Auth v this = this\<lparr>auth := v\<rparr>"
| "prop_store Hostname v this = this\<lparr>hostname := v\<rparr>"
| "prop_store Name v this = this\<lparr>name := v\<rparr>"
| "prop_store Noreply v this = this\<lparr>noreply := v\<rparr>"
| "prop_store Port v this = this\<lparr>port := v\<rparr>"
| "prop_store Secure v this = this\<lparr>secure := v\<rparr>"
| "prop_store Tls v this = this\<lparr>tls := v\<rparr>"
| "prop_store Transporter v this = this\<lparr>transporter := v\<rparr>"

fun prop_set :: "property \<Rightarrow> mailer \<Rightarrow> jsval \<Rightarrow> jsval" where
  "prop_set Auth = auth_set"
| "prop_set Hostname = hostname_set"
| "prop_set Name = name_set"
| "prop_set Noreply = noreply_set"
| "prop_set Port = port_set"
| "prop_set Secure = secure_set"
| "prop_set Tls = tls_set"
| "prop_set Transporter = transporter_set"

fun prop_validate :: "property \<Rightarrow> (jsval \<Rightarrow> jsval) option" where
  "prop_validate Auth = Some auth_validate"
| "prop_validate Hostname = Some hostname_validate"
| "prop_validate Name = Some name_validate"
| "prop_validate Noreply = Some noreply_validate"
| "prop_validate Port = Some port_validate"
| "prop_validate Secure = None"
| "prop_validate Tls = Some tls_validate"
| "prop_validate Transporter = Some transporter_validate"

text \<open>
  Modelled from the spec: the assignment \<open>this.p = val\<close> to a declared property is run
  by \<open>XP.Class\<close> of the expandjs library, which is not among the sources. The
  specification says that a malformed field fails with a ValidationError identifying
  the field name and the expected type, and that an assignment to a field that already
  holds a value is ignored rather than erroring. So the assignment stores what the
  property's \<open>set\<close> returns, after its \<open>validate\<close>, applied to that result, has
  returned nothing truthy; a truthy result is the name of the expected type.
\<close>

fun type_name :: "jsval \<Rightarrow> string" where
  "type_name (Str t) = t"
| "type_name v = []"

definition assign :: "property \<Rightarrow> jsval \<Rightarrow> mailer \<Rightarrow> js_error + mailer" where
  "assign p val this =
     (let post = prop_set p this val in
      case prop_validate p of
        None \<Rightarrow> Inr (prop_store p post this)
      | Some validate \<Rightarrow>
          (if truthy (validate post)
           then Inl (ValidationError (prop_key p) (type_name (validate post)))
           else Inr (prop_store p post this)))"

section \<open>initialize\<close>

text \<open>
  The options handed to \<open>nodemailer.createTransport\<close>, lines 49 to 56. The factory itself
  is the external collaborator: it is a parameter, and it may throw.
\<close>

definition transport_options :: "mailer \<Rightarrow> jsval" where
  "transport_options this =
     Obj (fmap_of_list
       [(''auth'', auth this), (''host'', hostname this), (''name'', name this),
        (''port'', port this), (''secure'', secure this), (''tls'', tls this)])"

definition initialize ::
  "(jsval \<Rightarrow> js_error + jsval) \<Rightarrow> jsobject \<Rightarrow> mailer \<Rightarrow> js_error + mailer" where
  "initialize createTransport opts this0 =
     (let this = this0\<lparr>options := Obj opts\<rparr> in
      then_do (assign Auth (member (options this) ''auth'') this) (\<lambda>this.
      then_do (assign Hostname
                 (or_js (member (options this) ''hostname'') (Str ''localhost'')) this) (\<lambda>this.
      then_do (assign Name (or_js (member (options this) ''name'') Null) this) (\<lambda>this.
      then_do (assign Noreply (or_js (member (options this) ''noreply'') Null) this) (\<lambda>this.
      then_do (assign Port (or_js (member (options this) ''port'') Null) this) (\<lambda>this.
      then_do (assign Tls (or_js (member (options this) ''tls'') (Obj fmempty)) this) (\<lambda>this.
      then_do (assign Secure (or_js (member (options this) ''secure'') (Bool False)) this) (\<lambda>this.
      then_do (createTransport (transport_options this)) (\<lambda>handle.
      assign Transporter handle this)))))))))"

text \<open>\<open>new XPMailer(options)\<close> runs \<open>initialize\<close> on a fresh instance.\<close>

definition new_XPMailer ::
  "(jsval \<Rightarrow> js_error + jsval) \<Rightarrow> jsobject \<Rightarrow> js_error + mailer" where
  "new_XPMailer createTransport opts = initialize createTransport opts fresh"

section \<open>send\<close>

text \<open>
  What a call of \<open>send\<close> does that its caller can observe: the invocations of the
  callback, each with its error (if any) and its result; the messages handed to the
  transport's \<open>sendMail\<close>; and the mail object of the caller after the call.
  The transport is the external collaborator: \<open>sendMail\<close> maps the message it receives
  to the invocations it makes of the callback it was given.
\<close>

type_synonym invocation = "js_error option \<times> jsval"

record send_result =
  callbacks :: "invocation list"
  sendMail_calls :: "jsobject list"
  mail_after :: jsval

definition reject :: "jsval \<Rightarrow> js_error \<Rightarrow> send_result" where
  "reject mail e =
     \<lparr> callbacks = [(Some e, Undefined)], sendMail_calls = [], mail_after = mail \<rparr>"

text \<open>Lines 83 to 101 of the mailer with a default sender.\<close>

definition send ::
  "mailer \<Rightarrow> (jsobject \<Rightarrow> invocation list) \<Rightarrow> jsval \<Rightarrow> jsval \<Rightarrow> send_result" where
  "send this sendMail mail attachments =
     (if \<not> isObject mail then reject mail (ValidationError ''mail'' ''Object'')
      else if \<not> isString (member mail ''to'') (Bool True)
        then reject mail (ValidationError ''mail.to'' ''string'')
      else if \<not> isVoid (member mail ''from'') \<and> \<not> isString (member mail ''from'') (Bool True)
        then reject mail (ValidationError ''mail.from'' ''string'')
      else if \<not> isVoid (member mail ''cc'') \<and> \<not> isString (member mail ''cc'') Undefined
        then reject mail (ValidationError ''mail.cc'' ''string'')
      else if \<not> isVoid (member mail ''bcc'') \<and> \<not> isString (member mail ''bcc'') Undefined
        then reject mail (ValidationError ''mail.cc'' ''string'')
      else if \<not> isVoid (member mail ''html'') \<and> \<not> isString (member mail ''html'') Undefined
        then reject mail (ValidationError ''mail.html'' ''string'')
      else if \<not> isVoid (member mail ''text'') \<and> \<not> isString (member mail ''text'') Undefined
        then reject mail (ValidationError ''mail.text'' ''string'')
      else if \<not> isVoid attachments \<and> \<not> isArray attachments
        then reject mail (ValidationError ''attachments'' ''Array'')
      else if \<not> truthy (member mail ''from'') \<and> \<not> truthy (noreply this)
        then reject mail (ValidationError ''mail.from'' ''string'')
      else
        (let mail' = put mail ''from'' (or_js (member mail ''from'') (noreply this));
             message = object_assign fmempty
                         [own_properties mail', fmap_of_list [(''attachments'', attachments)]]
         in \<lparr> callbacks = sendMail message, sendMail_calls = [message],
              mail_after = mail' \<rparr>))"

text \<open>
  Lines 82 to 95 of \<open>lib/index.js\<close>, the first release: no default sender, \<open>from\<close> is
  checked before \<open>to\<close>, and the errors are \<open>XP.error(500, message)\<close>.
\<close>

definition send_lib_index ::
  "(jsobject \<Rightarrow> invocation list) \<Rightarrow> jsval \<Rightarrow> jsval \<Rightarrow> send_result" where
  "send_lib_index sendMail mail attachments =
     (if \<not> isObject mail then reject mail (XPError 500 ''\"email\" must be Object.'')
      else if \<not> isString (member mail ''from'') (Bool True)
        then reject mail (XPError 500 ''\"email.from\" must be string.'')
      else if \<not> isString (member mail ''to'') (Bool True)
        then reject mail (XPError 500 ''\"email.to\" must be string.'')
      else if \<not> isVoid (member mail ''cc'') \<and> \<not> isString (member mail ''cc'') Undefined
        then reject mail (XPError 500 ''\"email.cc\" must be string.'')
      else if \<not> isVoid (member mail ''bcc'') \<and> \<not> isString (member mail ''bcc'') Undefined
        then reject mail (XPError 500 ''\"email.cc\" must be string.'')
      else if \<not> isVoid (member mail ''html'') \<and> \<not> isString (member mail ''html'') Undefined
        then reject mail (XPError 500 ''\"email.html\" must be string.'')
      else if \<not> isVoid (member mail ''text'') \<and> \<not> isString (member mail ''text'') Undefined
        then reject mail (XPError 500 ''\"email.text\" must be string.'')
      else if \<not> isVoid attachments \<and> \<not> isArray attachments
        then reject mail (XPError 500 ''\"attachments\" must be Array.'')
      else
        (let message = object_assign fmempty
                         [own_properties mail, fmap_of_list [(''attachments'', attachments)]]
         in \<lparr> callbacks = sendMail message, sendMail_calls = [message],
              mail_after = mail \<rparr>))"

section \<open>The checks of the specification\<close>

text \<open>
  The five checks of section 4.2 of the specification, in its words: the message is a
  structured object; \<open>to\<close> is a non-empty string; \<open>from\<close> is a non-empty string, unless a
  default sender is configured and \<open>from\<close> is missing; \<open>cc\<close>, \<open>bcc\<close>, \<open>html\<close> and \<open>text\<close>
  are strings if present; the attachments are an array if present.
\<close>


definition optional_string :: "jsval \<Rightarrow> bool" where
  "optional_string v = (isVoid v \<or> isString v Undefined)"

definition check_object :: "jsval \<Rightarrow> bool" where
  "check_object mail = isObject mail"

definition check_to :: "jsval \<Rightarrow> bool" where
  "check_to mail = isString (member mail ''to'') (Bool True)"

definition check_from :: "mailer \<Rightarrow> jsval \<Rightarrow> bool" where
  "check_from this mail =
     (isString (member mail ''from'') (Bool True)
      \<or> (truthy (noreply this) \<and> isVoid (member mail ''from'')))"

definition check_optional_strings :: "jsval \<Rightarrow> bool" where
  "check_optional_strings mail =
     (optional_string (member mail ''cc'') \<and> optional_string (member mail ''bcc'')
      \<and> optional_string (member mail ''html'') \<and> optional_string (member mail ''text''))"

definition check_attachments :: "jsval \<Rightarrow> bool" where
  "check_attachments attachments = (isVoid attachments \<or> isArray attachments)"

definition passes_every_check :: "mailer \<Rightarrow> jsval \<Rightarrow> jsval \<Rightarrow> bool" where
  "passes_every_check this mail attachments =
     (check_object mail \<and> check_to mail \<and> check_from this mail
      \<and> check_optional_strings mail \<and> check_attachments attachments)"

text \<open>
  The checks in the order in which \<open>send\<close> makes them, each with the field path and the
  type that its documentation names.
\<close>

datatype check =
    MailObject | ToString | FromString | CcString | BccString | HtmlString | TextString
  | AttachmentsArray | FromPresent

fun violated :: "mailer \<Rightarrow> jsval \<Rightarrow> jsval \<Rightarrow> check \<Rightarrow> bool" where
  "violated this mail att MailObject = (\<not> isObject mail)"
| "violated this mail att ToString = (\<not> isString (member mail ''to'') (Bool True))"
| "violated this mail att FromString =
     (\<not> isVoid (member mail ''from'') \<and> \<not> isString (member mail ''from'') (Bool True))"
| "violated this mail att CcString = (\<not> optional_string (member mail ''cc''))"
| "violated this mail att BccString = (\<not> optional_string (member mail ''bcc''))"
| "violated this mail att HtmlString = (\<not> optional_string (member mail ''html''))"
| "violated this mail att TextString = (\<not> optional_string (member mail ''text''))"
| "violated this mail att AttachmentsArray = (\<not> isVoid att \<and> \<not> isArray att)"
| "violated this mail att FromPresent =
     (isVoid (member mail ''from'') \<and> \<not> truthy (noreply this))"

definition checks_in_order :: "check list" where
  "checks_in_order =
     [MailObject, ToString, FromString, CcString, BccString, HtmlString, TextString,
      AttachmentsArray, FromPresent]"

definition first_violated :: "mailer \<Rightarrow> jsval \<Rightarrow> jsval \<Rightarrow> check option" where
  "first_violated this mail att = List.find (violated this mail att) checks_in_order"

fun check_error :: "check \<Rightarrow> js_error" where
  "check_error MailObject = ValidationError ''mail'' ''Object''"
| "check_error ToString = ValidationError ''mail.to'' ''string''"
| "check_error FromString = ValidationError ''mail.from'' ''string''"
| "check_error CcString = ValidationError ''mail.cc'' ''string''"
| "check_error BccString = ValidationError ''mail.bcc'' ''string''"
| "check_error HtmlString = ValidationError ''mail.html'' ''string''"
| "check_error TextString = ValidationError ''mail.text'' ''string''"
| "check_error AttachmentsArray = ValidationError ''attachments'' ''Array''"
| "check_error FromPresent = ValidationError ''mail.from'' ''string''"

text \<open>The message that reaches the transport: the mail, its sender filled in, and the attachments.\<close>

definition forwarded :: "mailer \<Rightarrow> jsval \<Rightarrow> jsval \<Rightarrow> jsobject" where
  "forwarded this mail att =
     fmupd ''attachments'' att
       (fmupd ''from'' (or_js (member mail ''from'') (noreply this)) (own_properties mail))"

section \<open>Example collaborators and instances\<close>

definition stub_createTransport :: "jsval \<Rightarrow> js_error + jsval" where
  "stub_createTransport transportOptions = Inr (Obj fmempty)"

definition delivering_transport :: "jsobject \<Rightarrow> invocation list" where
  "delivering_transport message = [(None, Str ''250 OK'')]"

definition silent_transport :: "jsobject \<Rightarrow> invocation list" where
  "silent_transport message = []"

definition mailer_without_default :: mailer where
  "mailer_without_default =
     \<lparr> options = Obj (fmap_of_list [(''auth'', Obj fmempty)]),
       auth = Obj fmempty, hostname = Str ''localhost'', name = Null, noreply = Null,
       port = Null, secure = Bool False, tls = Obj fmempty, transporter = Obj fmempty \<rparr>"

definition mailer_with_default :: mailer where
  "mailer_with_default =
     \<lparr> options = Obj (fmap_of_list
         [(''auth'', Obj fmempty), (''noreply'', Str ''noreply@example.com'')]),
       auth = Obj fmempty, hostname = Str ''localhost'', name = Null,
       noreply = Str ''noreply@example.com'',
       port = Null, secure = Bool False, tls = Obj fmempty, transporter = Obj fmempty \<rparr>"

section \<open>The state after construction\<close>

text \<open>
  The state of an instance once its construction has succeeded: every declared property
  holds a value that its \<open>validate\<close> accepts, and none holds \<open>undefined\<close>.
\<close>

definition configured :: "mailer \<Rightarrow> bool" where
  "configured this =
     (isObject (auth this)
      \<and> isString (hostname this) (Bool True)
      \<and> (name this = Null \<or> isString (name this) (Bool True))
      \<and> (noreply this = Null \<or> isString (noreply this) (Bool True))
      \<and> (port this = Null \<or> isInt (port this) (Bool True))
      \<and> (secure this = Bool True \<or> secure this = Bool False)
      \<and> isObject (tls this)
      \<and> isObject (transporter this))"

text \<open>Example configuration records, and the instance built from one of them.\<close>

definition options_auth_only :: jsobject where
  "options_auth_only =
     fmap_of_list [(''auth'', Obj (fmap_of_list [(''user'', Str ''a''), (''pass'', Str ''b'')]))]"

definition options_first :: jsobject where
  "options_first =
     fmap_of_list [(''auth'', Obj fmempty), (''hostname'', Str ''first.example.com'')]"

definition options_second :: jsobject where
  "options_second =
     fmap_of_list [(''auth'', Obj fmempty), (''hostname'', Str ''second.example.com'')]"

definition mailer_first :: mailer where
  "mailer_first =
     \<lparr> options = Obj options_first,
       auth = Obj fmempty, hostname = Str ''first.example.com'', name = Null,
       noreply = Null, port = Null, secure = Bool False, tls = Obj fmempty,
       transporter = Obj fmempty \<rparr>"

section \<open>Basic facts\<close>

lemma get_fmupd: "get (fmupd k x m) k' = (if k = k' then x else get m k')"
  by (simp add: get_def)

lemma isString_nonempty_truthy: "isString v (Bool True) \<Longrightarrow> truthy v"
  by (cases v) (auto simp: isVoid_def)

lemma isVoid_not_truthy: "isVoid v \<Longrightarrow> \<not> truthy v"
  by (auto simp: isVoid_def)

lemma send_first_violated_None:
  assumes "first_violated this mail att = None"
  shows "send this sendMail mail att =
           \<lparr> callbacks = sendMail (forwarded this mail att),
             sendMail_calls = [forwarded this mail att],
             mail_after = put mail ''from'' (or_js (member mail ''from'') (noreply this)) \<rparr>"
proof -
  have v: "\<not> violated this mail att c" for c
    using assms
    by (cases c) (simp_all add: first_violated_def checks_in_order_def split: if_splits)
  from v[of MailObject] obtain m where m: "mail = Obj m" by (cases mail) auto
  show ?thesis
    using v[of ToString] v[of FromString] v[of CcString] v[of BccString]
      v[of HtmlString] v[of TextString] v[of AttachmentsArray] v[of FromPresent]
    by (auto simp: send_def m optional_string_def forwarded_def object_assign_def Let_def
        dest: isString_nonempty_truthy)
qed

lemma first_violated_SomeD:
  "first_violated this mail att = Some c \<Longrightarrow>
     violated this mail att c \<and>
     (\<forall>d \<in> set (takeWhile (\<lambda>d. d \<noteq> c) checks_in_order). \<not> violated this mail att d)"
  unfolding first_violated_def
  by (cases c) (simp_all add: checks_in_order_def split: if_splits)

lemma send_first_violated_Some:
  assumes "first_violated this mail att = Some c"
  shows "send this sendMail mail att =
           reject mail (if c = BccString then ValidationError ''mail.cc'' ''string''
                        else check_error c)"
proof -
  note d = first_violated_SomeD[OF assms]
  show ?thesis
  proof (cases c)
    case MailObject
    with d show ?thesis by (simp add: send_def)
  next
    case ToString
    with d show ?thesis by (simp add: send_def checks_in_order_def)
  next
    case FromString
    with d show ?thesis by (simp add: send_def checks_in_order_def)
  next
    case CcString
    with d show ?thesis by (auto simp: send_def checks_in_order_def optional_string_def)
  next
    case BccString
    with d show ?thesis by (auto simp: send_def checks_in_order_def optional_string_def)
  next
    case HtmlString
    with d show ?thesis by (auto simp: send_def checks_in_order_def optional_string_def)
  next
    case TextString
    with d show ?thesis by (auto simp: send_def checks_in_order_def optional_string_def)
  next
    case AttachmentsArray
    with d show ?thesis by (auto simp: send_def checks_in_order_def optional_string_def)
  next
    case FromPresent
    with d show ?thesis
      by (auto simp: send_def checks_in_order_def optional_string_def
          dest: isVoid_not_truthy)
  qed
qed

lemma passes_every_check_iff:
  "passes_every_check this mail att = (first_violated this mail att = None)"
  by (auto simp: passes_every_check_def check_object_def check_to_def check_from_def
      check_optional_strings_def check_attachments_def first_violated_def
      checks_in_order_def isVoid_def)

lemma fmupd_changes: "get m k \<noteq> x \<Longrightarrow> x \<noteq> Undefined \<Longrightarrow> fmupd k x m \<noteq> m"
  by (metis get_fmupd)

lemma fmupd_same: "get m k = x \<Longrightarrow> x \<noteq> Undefined \<Longrightarrow> fmupd k x m = m"
proof (rule fmap_ext)
  fix j
  assume "get m k = x" and "x \<noteq> Undefined"
  then have "fmlookup m k = Some x" by (cases "fmlookup m k") (simp_all add: get_def)
  then show "fmlookup (fmupd k x m) j = fmlookup m j" by auto
qed

lemma send_present_from_kept:
  assumes "first_violated this mail att = None" and "\<not> isVoid (member mail ''from'')"
  shows "send this sendMail mail att =
           \<lparr> callbacks = sendMail (forwarded this mail att),
             sendMail_calls = [forwarded this mail att], mail_after = mail \<rparr>
         \<and> get (forwarded this mail att) ''from'' = member mail ''from''"
proof -
  have v: "\<not> violated this mail att c" for c
    using assms(1)
    by (cases c) (simp_all add: first_violated_def checks_in_order_def split: if_splits)
  from v[of MailObject] obtain m where m: "mail = Obj m" by (cases mail) auto
  from v[of FromString] assms(2) have s: "isString (member mail ''from'') (Bool True)"
    by simp
  then have t: "truthy (member mail ''from'')" by (rule isString_nonempty_truthy)
  then have u: "get m ''from'' \<noteq> Undefined" by (auto simp: m)
  have "put mail ''from'' (or_js (member mail ''from'') (noreply this)) = mail"
    using t u by (simp add: m or_js_def fmupd_same)
  moreover have "get (forwarded this mail att) ''from'' = member mail ''from''"
    using t by (simp add: forwarded_def get_fmupd or_js_def)
  ultimately show ?thesis
    unfolding send_first_violated_None[OF assms(1)] by simp
qed

lemmas send_eval = send_def reject_def get_def isVoid_def or_js_def object_assign_def
  mailer_without_default_def mailer_with_default_def delivering_transport_def
  silent_transport_def

section \<open>The claims about send\<close>

text \<open>
  Claim C4. Every validation failure of \<open>send\<close> delivers a ValidationError that names
  the path of the offending field and its expected type; in particular a \<open>bcc\<close> that is
  present and not a string yields a ValidationError naming \<open>mail.bcc\<close>.
  The code does not: line 90 tests \<open>mail.bcc\<close> and reports \<open>mail.cc\<close>, the path of the
  line above it. The mail below has a valid \<open>to\<close> and \<open>from\<close> and the number 5 as \<open>bcc\<close>.
\<close>

theorem send_bcc_error_names_cc:
  "callbacks (send mailer_without_default delivering_transport
      (Obj (fmap_of_list [(''to'', Str ''a@example.com''), (''from'', Str ''b@example.com''),
                          (''bcc'', Num 5)])) Undefined)
     = [(Some (ValidationError ''mail.cc'' ''string''), Undefined)]"
  by (simp add: send_eval)

text \<open>
  Claim C10, as amended. For every message that is an object with a non-empty string
  as \<open>to\<close>, and whose \<open>from\<close> is the empty string, \<open>send\<close> invokes its callback once with a
  ValidationError naming \<open>mail.from\<close>, whether a default sender is configured or not;
  the transport is not contacted and the mail is left as it was. Only a \<open>from\<close> that is
  \<open>null\<close> or \<open>undefined\<close> is substituted: for every message, if the mail has changed then
  its \<open>from\<close> was \<open>null\<close> or \<open>undefined\<close>, and a message that reaches the transport with a
  \<open>from\<close> that was present carries that \<open>from\<close>.
\<close>

theorem send_empty_from_rejected:
  "(isObject mail \<and> isString (member mail ''to'') (Bool True)
      \<and> member mail ''from'' = Str '''' \<longrightarrow>
      callbacks (send this sendMail mail att)
        = [(Some (ValidationError ''mail.from'' ''string''), Undefined)]
      \<and> sendMail_calls (send this sendMail mail att) = []
      \<and> mail_after (send this sendMail mail att) = mail)
   \<and> (mail_after (send this sendMail mail att) \<noteq> mail \<longrightarrow>
        isVoid (member mail ''from''))
   \<and> (\<not> isVoid (member mail ''from'') \<longrightarrow>
        (\<forall>message. message \<in> set (sendMail_calls (send this sendMail mail att)) \<longrightarrow>
           get message ''from'' = member mail ''from''))"
proof (intro conjI impI)
  assume "isObject mail \<and> isString (member mail ''to'') (Bool True)
      \<and> member mail ''from'' = Str ''''"
  then have r: "send this sendMail mail att
      = reject mail (ValidationError ''mail.from'' ''string'')"
    by (simp add: send_def isVoid_def)
  show "callbacks (send this sendMail mail att)
        = [(Some (ValidationError ''mail.from'' ''string''), Undefined)]"
    unfolding r by (simp add: reject_def)
  show "sendMail_calls (send this sendMail mail att) = []"
    unfolding r by (simp add: reject_def)
  show "mail_after (send this sendMail mail att) = mail"
    unfolding r by (simp add: reject_def)
next
  assume ch: "mail_after (send this sendMail mail att) \<noteq> mail"
  show "isVoid (member mail ''from'')"
  proof (cases "first_violated this mail att")
    case (Some c)
    from ch show ?thesis
      unfolding send_first_violated_Some[OF Some] by (simp add: reject_def)
  next
    case None
    show ?thesis
    proof (rule ccontr)
      assume "\<not> isVoid (member mail ''from'')"
      from send_present_from_kept[OF None this, of sendMail] ch show False by simp
    qed
  qed
next
  assume nv: "\<not> isVoid (member mail ''from'')"
  show "\<forall>message. message \<in> set (sendMail_calls (send this sendMail mail att)) \<longrightarrow>
           get message ''from'' = member mail ''from''"
  proof (cases "first_violated this mail att")
    case (Some c)
    show ?thesis unfolding send_first_violated_Some[OF Some] by (simp add: reject_def)
  next
    case None
    from send_present_from_kept[OF None nv, of sendMail] show ?thesis by simp
  qed
qed

theorem send_empty_from_rejected_witness:
  "isObject (Obj (fmap_of_list [(''to'', Str ''a@example.com''), (''from'', Str '''')]))
   \<and> truthy (noreply mailer_with_default)
   \<and> callbacks (send mailer_with_default delivering_transport
        (Obj (fmap_of_list [(''to'', Str ''a@example.com''), (''from'', Str '''')])) Undefined)
      = [(Some (ValidationError ''mail.from'' ''string''), Undefined)]
   \<and> sendMail_calls (send mailer_with_default delivering_transport
        (Obj (fmap_of_list [(''to'', Str ''a@example.com''), (''from'', Str '''')])) Undefined)
      = []
   \<and> mail_after (send mailer_with_default delivering_transport
        (Obj (fmap_of_list [(''to'', Str ''a@example.com'')])) Undefined)
      \<noteq> Obj (fmap_of_list [(''to'', Str ''a@example.com'')])
   \<and> isVoid (member (Obj (fmap_of_list [(''to'', Str ''a@example.com'')])) ''from'')
   \<and> sendMail_calls (send mailer_with_default delivering_transport
        (Obj (fmap_of_list [(''to'', Str ''a@example.com''), (''from'', Str ''b@example.com'')]))
        Undefined)
      = [fmap_of_list [(''to'', Str ''a@example.com''), (''from'', Str ''b@example.com''),
                       (''attachments'', Undefined)]]
   \<and> get (fmap_of_list [(''to'', Str ''a@example.com''), (''from'', Str ''b@example.com''),
                       (''attachments'', Undefined)]) ''from'' = Str ''b@example.com''"
proof -
  have a: "isObject (Obj (fmap_of_list [(''to'', Str ''a@example.com''), (''from'', Str '''')]))
      \<and> isString (member (Obj (fmap_of_list [(''to'', Str ''a@example.com''),
            (''from'', Str '''')])) ''to'') (Bool True)
      \<and> member (Obj (fmap_of_list [(''to'', Str ''a@example.com''), (''from'', Str '''')]))
            ''from'' = Str ''''"
    by (simp add: get_def isVoid_def)
  have t: "truthy (noreply mailer_with_default)" by (simp add: mailer_with_default_def)
  have ch: "mail_after (send mailer_with_default delivering_transport
        (Obj (fmap_of_list [(''to'', Str ''a@example.com'')])) Undefined)
      \<noteq> Obj (fmap_of_list [(''to'', Str ''a@example.com'')])"
  proof -
    have "get (fmap_of_list [(''to'', Str ''a@example.com'')]) ''from''
            \<noteq> Str ''noreply@example.com''"
      by (simp add: get_def)
    then have "fmupd ''from'' (Str ''noreply@example.com'')
                 (fmap_of_list [(''to'', Str ''a@example.com'')])
               \<noteq> fmap_of_list [(''to'', Str ''a@example.com'')]"
      by (rule fmupd_changes) simp
    then show ?thesis by (simp add: send_eval)
  qed
  have s: "sendMail_calls (send mailer_with_default delivering_transport
        (Obj (fmap_of_list [(''to'', Str ''a@example.com''), (''from'', Str ''b@example.com'')]))
        Undefined)
      = [fmap_of_list [(''to'', Str ''a@example.com''), (''from'', Str ''b@example.com''),
                       (''attachments'', Undefined)]]"
    by (simp add: send_eval fmupd_reorder_neq)
  have nv: "\<not> isVoid (member (Obj (fmap_of_list [(''to'', Str ''a@example.com''),
        (''from'', Str ''b@example.com'')])) ''from'')"
    by (simp add: get_def isVoid_def)
  have m: "member (Obj (fmap_of_list [(''to'', Str ''a@example.com''),
        (''from'', Str ''b@example.com'')])) ''from'' = Str ''b@example.com''"
    by (simp add: get_def)
  note th1 = send_empty_from_rejected
    [of "Obj (fmap_of_list [(''to'', Str ''a@example.com''), (''from'', Str '''')])"
        mailer_with_default delivering_transport Undefined]
  note th2 = send_empty_from_rejected
    [of "Obj (fmap_of_list [(''to'', Str ''a@example.com'')])"
        mailer_with_default delivering_transport Undefined]
  note th3 = send_empty_from_rejected
    [of "Obj (fmap_of_list [(''to'', Str ''a@example.com''), (''from'', Str ''b@example.com'')])"
        mailer_with_default delivering_transport Undefined]
  from th1 a have 1: "callbacks (send mailer_with_default delivering_transport
        (Obj (fmap_of_list [(''to'', Str ''a@example.com''), (''from'', Str '''')])) Undefined)
      = [(Some (ValidationError ''mail.from'' ''string''), Undefined)]
   \<and> sendMail_calls (send mailer_with_default delivering_transport
        (Obj (fmap_of_list [(''to'', Str ''a@example.com''), (''from'', Str '''')])) Undefined)
      = []" by blast
  from th2 ch have 2: "isVoid (member (Obj (fmap_of_list [(''to'', Str ''a@example.com'')]))
      ''from'')" by blast
  from th3 nv s m have 3: "get (fmap_of_list [(''to'', Str ''a@example.com''),
      (''from'', Str ''b@example.com''), (''attachments'', Undefined)]) ''from''
      = Str ''b@example.com''"
    by (metis list.set_intros(1))
  from a t 1 ch 2 s 3 show ?thesis by blast
qed

text \<open>
  The claim as it was stated, for every message whose \<open>from\<close> is the empty string,
  fails where \<open>to\<close> is missing: the check of \<open>to\<close> comes first and its error is reported.
\<close>

theorem send_empty_from_counterexample:
  "member (Obj (fmap_of_list [(''from'', Str '''')])) ''from'' = Str ''''
   \<and> callbacks (send mailer_with_default delivering_transport
        (Obj (fmap_of_list [(''from'', Str '''')])) Undefined)
      = [(Some (ValidationError ''mail.to'' ''string''), Undefined)]"
  by (simp add: send_eval)

text \<open>
  Claim C1, as amended. For every message that passes the other checks (it is an
  object, \<open>to\<close> is a non-empty string, \<open>cc\<close>, \<open>bcc\<close>, \<open>html\<close> and \<open>text\<close> are strings if
  present, the attachments are an array if present) and whose \<open>from\<close> is missing:
  without a default sender, \<open>send\<close> invokes its callback with a ValidationError naming
  \<open>mail.from\<close> and the transport is not contacted; with a default sender, the message is
  handed to \<open>sendMail\<close> once, its \<open>from\<close> being the configured address, and the
  callback is the transport's to invoke.
\<close>

theorem send_from_missing:
  assumes "isObject mail" and "isString (member mail ''to'') (Bool True)"
    and "isVoid (member mail ''from'')"
    and "check_optional_strings mail" and "check_attachments att"
  shows "(\<not> truthy (noreply this) \<longrightarrow>
            callbacks (send this sendMail mail att)
              = [(Some (ValidationError ''mail.from'' ''string''), Undefined)]
            \<and> sendMail_calls (send this sendMail mail att) = [])
         \<and> (truthy (noreply this) \<longrightarrow>
            sendMail_calls (send this sendMail mail att) = [forwarded this mail att]
            \<and> get (forwarded this mail att) ''from'' = noreply this
            \<and> callbacks (send this sendMail mail att) = sendMail (forwarded this mail att))"
proof (cases "truthy (noreply this)")
  case True
  with assms have "first_violated this mail att = None"
    by (simp add: passes_every_check_iff[symmetric] passes_every_check_def check_object_def
        check_to_def check_from_def)
  from send_first_violated_None[OF this, of sendMail] True assms(3) show ?thesis
    by (simp add: forwarded_def get_fmupd or_js_def isVoid_not_truthy)
next
  case False
  with assms have "first_violated this mail att = Some FromPresent"
    by (auto simp: first_violated_def checks_in_order_def check_optional_strings_def
        check_attachments_def)
  from send_first_violated_Some[OF this, of sendMail] False show ?thesis
    by (simp add: reject_def)
qed

theorem send_from_missing_witness:
  "isVoid (member (Obj (fmap_of_list [(''to'', Str ''a@example.com'')])) ''from'')
   \<and> \<not> truthy (noreply mailer_without_default)
   \<and> callbacks (send mailer_without_default delivering_transport
         (Obj (fmap_of_list [(''to'', Str ''a@example.com'')])) Undefined)
       = [(Some (ValidationError ''mail.from'' ''string''), Undefined)]
   \<and> truthy (noreply mailer_with_default)
   \<and> get (forwarded mailer_with_default
         (Obj (fmap_of_list [(''to'', Str ''a@example.com'')])) Undefined) ''from''
       = Str ''noreply@example.com''
   \<and> sendMail_calls (send mailer_with_default delivering_transport
         (Obj (fmap_of_list [(''to'', Str ''a@example.com'')])) Undefined)
       = [forwarded mailer_with_default
            (Obj (fmap_of_list [(''to'', Str ''a@example.com'')])) Undefined]"
  using send_from_missing
      [of "Obj (fmap_of_list [(''to'', Str ''a@example.com'')])" Undefined
          mailer_without_default delivering_transport]
    send_from_missing
      [of "Obj (fmap_of_list [(''to'', Str ''a@example.com'')])" Undefined
          mailer_with_default delivering_transport]
  by (simp add: get_def isVoid_def check_optional_strings_def optional_string_def
      check_attachments_def mailer_without_default_def mailer_with_default_def)

text \<open>
  The claim as it was stated, for every message whose \<open>from\<close> is missing, fails at the
  empty message: without a default sender the error names \<open>mail.to\<close>, and with one the
  message is not forwarded.
\<close>

theorem send_from_missing_counterexample:
  "isVoid (member (Obj fmempty) ''from'')
   \<and> \<not> truthy (noreply mailer_without_default)
   \<and> callbacks (send mailer_without_default delivering_transport (Obj fmempty) Undefined)
       = [(Some (ValidationError ''mail.to'' ''string''), Undefined)]
   \<and> truthy (noreply mailer_with_default)
   \<and> sendMail_calls (send mailer_with_default delivering_transport (Obj fmempty) Undefined)
       = []"
  by (simp add: send_eval)

text \<open>
  Claim C2, as amended. The checks of \<open>send\<close> are made in this order, and the first one
  that fails decides the error, the later ones being skipped: (1) the message is a
  structured object; (2) \<open>to\<close> is a non-empty string; (3) \<open>from\<close>, if present, is a
  non-empty string; (4) \<open>cc\<close>, \<open>bcc\<close>, \<open>html\<close> and \<open>text\<close>, in this order, are strings if
  present; (5) the attachments are an array if present; (6) \<open>from\<close> is present or a
  default sender is configured. Exactly one ValidationError reaches the callback, the
  transport is not contacted and the mail is untouched. The error is that of the first
  failing check. For \<open>bcc\<close> the path that the error names is left open, but its place in
  the order is not: the error is one with expected type string and it is not the error
  of \<open>html\<close>, \<open>text\<close>, the attachments or the missing \<open>from\<close>, the checks that come after.
\<close>

theorem send_first_failure_wins:
  assumes "first_violated this mail att = Some c"
  shows "sendMail_calls (send this sendMail mail att) = []
         \<and> mail_after (send this sendMail mail att) = mail
         \<and> (\<exists>p t. callbacks (send this sendMail mail att)
                     = [(Some (ValidationError p t), Undefined)])
         \<and> (c \<noteq> BccString \<longrightarrow>
              callbacks (send this sendMail mail att) = [(Some (check_error c), Undefined)])
         \<and> (c = BccString \<longrightarrow>
              (\<exists>p. callbacks (send this sendMail mail att)
                     = [(Some (ValidationError p ''string''), Undefined)])
              \<and> (\<forall>d \<in> set [HtmlString, TextString, AttachmentsArray, FromPresent].
                   callbacks (send this sendMail mail att)
                     \<noteq> [(Some (check_error d), Undefined)]))"
  unfolding send_first_violated_Some[OF assms, of sendMail]
  by (cases c) (simp_all add: reject_def)

theorem send_first_failure_wins_witness:
  "first_violated mailer_without_default
      (Obj (fmap_of_list [(''to'', Str ''a@example.com''), (''cc'', Num 5)])) (Str ''x'')
     = Some CcString
   \<and> callbacks (send mailer_without_default delivering_transport
        (Obj (fmap_of_list [(''to'', Str ''a@example.com''), (''cc'', Num 5)])) (Str ''x''))
     = [(Some (ValidationError ''mail.cc'' ''string''), Undefined)]
   \<and> sendMail_calls (send mailer_without_default delivering_transport
        (Obj (fmap_of_list [(''to'', Str ''a@example.com''), (''cc'', Num 5)])) (Str ''x''))
     = []
   \<and> first_violated mailer_without_default
      (Obj (fmap_of_list [(''to'', Str ''a@example.com''), (''bcc'', Num 5),
                          (''html'', Num 6)])) (Str ''x'')
     = Some BccString
   \<and> callbacks (send mailer_without_default delivering_transport
        (Obj (fmap_of_list [(''to'', Str ''a@example.com''), (''bcc'', Num 5),
                            (''html'', Num 6)])) (Str ''x''))
     \<noteq> [(Some (ValidationError ''mail.html'' ''string''), Undefined)]
   \<and> callbacks (send mailer_without_default delivering_transport
        (Obj (fmap_of_list [(''to'', Str ''a@example.com''), (''bcc'', Num 5),
                            (''html'', Num 6)])) (Str ''x''))
     \<noteq> [(Some (ValidationError ''mail.from'' ''string''), Undefined)]"
proof -
  have h: "first_violated mailer_without_default
      (Obj (fmap_of_list [(''to'', Str ''a@example.com''), (''cc'', Num 5)])) (Str ''x'')
     = Some CcString"
    by (simp add: first_violated_def checks_in_order_def optional_string_def get_def
        isVoid_def)
  have b: "first_violated mailer_without_default
      (Obj (fmap_of_list [(''to'', Str ''a@example.com''), (''bcc'', Num 5),
                          (''html'', Num 6)])) (Str ''x'')
     = Some BccString"
    by (simp add: first_violated_def checks_in_order_def optional_string_def get_def
        isVoid_def)
  from send_first_failure_wins[OF h, of delivering_transport]
    send_first_failure_wins[OF b, of delivering_transport] h b
  show ?thesis by simp
qed

text \<open>
  The order as the claim states it puts the whole check of \<open>from\<close> third, before \<open>cc\<close>.
  The mail below has a valid \<open>to\<close>, no \<open>from\<close> (and the mailer no default sender) and the
  number 5 as \<open>cc\<close>: it passes the first two checks of the specification and fails
  the third and the fourth, and the error it gets is that of the fourth.
\<close>

theorem send_check_order_counterexample:
  "check_object (Obj (fmap_of_list [(''to'', Str ''a@example.com''), (''cc'', Num 5)]))
   \<and> check_to (Obj (fmap_of_list [(''to'', Str ''a@example.com''), (''cc'', Num 5)]))
   \<and> \<not> check_from mailer_without_default
         (Obj (fmap_of_list [(''to'', Str ''a@example.com''), (''cc'', Num 5)]))
   \<and> \<not> check_optional_strings
         (Obj (fmap_of_list [(''to'', Str ''a@example.com''), (''cc'', Num 5)]))
   \<and> callbacks (send mailer_without_default delivering_transport
        (Obj (fmap_of_list [(''to'', Str ''a@example.com''), (''cc'', Num 5)])) Undefined)
     = [(Some (ValidationError ''mail.cc'' ''string''), Undefined)]"
  by (simp add: send_eval check_object_def check_to_def check_from_def
      check_optional_strings_def optional_string_def)

lemma send_rejected:
  assumes "\<not> passes_every_check this mail att"
  shows "(\<exists>p t. callbacks (send this sendMail mail att)
                = [(Some (ValidationError p t), Undefined)])
      \<and> sendMail_calls (send this sendMail mail att) = []
      \<and> mail_after (send this sendMail mail att) = mail"
proof -
  from assms obtain c where c: "first_violated this mail att = Some c"
    by (auto simp: passes_every_check_iff)
  show ?thesis
    unfolding send_first_violated_Some[OF c] by (cases c) (simp_all add: reject_def)
qed

lemma send_accepted:
  assumes "passes_every_check this mail att"
  shows "sendMail_calls (send this sendMail mail att) = [forwarded this mail att]"
proof -
  from assms have n: "first_violated this mail att = None"
    by (simp add: passes_every_check_iff)
  show ?thesis unfolding send_first_violated_None[OF n] by simp
qed

lemma send_missing_to:
  assumes "isObject mail" "isVoid (member mail ''to'')"
  shows "send this sendMail mail att = reject mail (ValidationError ''mail.to'' ''string'')"
proof -
  from assms(2) have "\<not> isString (member mail ''to'') (Bool True)"
    by (auto simp: isVoid_def)
  with assms(1) show ?thesis by (simp add: send_def)
qed


text \<open>
  Claim C3. An input that violates any check of section 4.2 gets exactly a validation
  error through the callback, the transport's \<open>sendMail\<close> is not invoked and the mail is
  untouched; the transport is contacted only on inputs that pass every check (and then
  once, with the merged message). In particular a message without \<open>to\<close> gets a
  ValidationError naming \<open>mail.to\<close>, and the transport is not contacted.
\<close>

theorem send_rejects_before_transport:
  "(\<not> passes_every_check this mail att \<longrightarrow>
      (\<exists>p t. callbacks (send this sendMail mail att)
                = [(Some (ValidationError p t), Undefined)])
      \<and> sendMail_calls (send this sendMail mail att) = []
      \<and> mail_after (send this sendMail mail att) = mail)
   \<and> (sendMail_calls (send this sendMail mail att) \<noteq> [] \<longrightarrow>
        passes_every_check this mail att)
   \<and> (passes_every_check this mail att \<longrightarrow>
        sendMail_calls (send this sendMail mail att) = [forwarded this mail att])
   \<and> (isObject mail \<and> isVoid (member mail ''to'') \<longrightarrow>
        callbacks (send this sendMail mail att)
          = [(Some (ValidationError ''mail.to'' ''string''), Undefined)]
        \<and> sendMail_calls (send this sendMail mail att) = [])"
proof (intro conjI impI)
  assume "isObject mail \<and> isVoid (member mail ''to'')"
  then have r: "send this sendMail mail att
      = reject mail (ValidationError ''mail.to'' ''string'')"
    by (simp add: send_missing_to)
  show "callbacks (send this sendMail mail att)
          = [(Some (ValidationError ''mail.to'' ''string''), Undefined)]"
    unfolding r by (simp add: reject_def)
  show "sendMail_calls (send this sendMail mail att) = []"
    unfolding r by (simp add: reject_def)
next
  assume "sendMail_calls (send this sendMail mail att) \<noteq> []"
  with send_rejected[of this mail att sendMail] show "passes_every_check this mail att"
    by blast
qed (simp_all add: send_rejected send_accepted)

theorem send_rejects_before_transport_witness:
  "\<not> passes_every_check mailer_with_default (Obj (fmap_of_list [(''to'', Str [])])) Undefined
   \<and> isVoid (member (Obj (fmap_of_list [(''cc'', Str ''c@example.com'')])) ''to'')
   \<and> callbacks (send mailer_with_default delivering_transport
        (Obj (fmap_of_list [(''to'', Str [])])) Undefined)
      = [(Some (ValidationError ''mail.to'' ''string''), Undefined)]
   \<and> sendMail_calls (send mailer_with_default delivering_transport
        (Obj (fmap_of_list [(''to'', Str [])])) Undefined) = []
   \<and> callbacks (send mailer_with_default delivering_transport
        (Obj (fmap_of_list [(''cc'', Str ''c@example.com'')])) Undefined)
      = [(Some (ValidationError ''mail.to'' ''string''), Undefined)]
   \<and> passes_every_check mailer_with_default
        (Obj (fmap_of_list [(''to'', Str ''a@example.com'')])) Undefined
   \<and> sendMail_calls (send mailer_with_default delivering_transport
        (Obj (fmap_of_list [(''to'', Str ''a@example.com'')])) Undefined)
      = [forwarded mailer_with_default
           (Obj (fmap_of_list [(''to'', Str ''a@example.com'')])) Undefined]"
proof -
  have a: "\<not> passes_every_check mailer_with_default
      (Obj (fmap_of_list [(''to'', Str [])])) Undefined"
    by (simp add: passes_every_check_def check_to_def get_def isVoid_def)
  have b: "isObject (Obj (fmap_of_list [(''cc'', Str ''c@example.com'')]))
      \<and> isVoid (member (Obj (fmap_of_list [(''cc'', Str ''c@example.com'')])) ''to'')"
    by (simp add: get_def isVoid_def)
  have c: "passes_every_check mailer_with_default
        (Obj (fmap_of_list [(''to'', Str ''a@example.com'')])) Undefined"
    by (simp add: passes_every_check_def check_object_def check_to_def check_from_def
        check_optional_strings_def optional_string_def check_attachments_def get_def
        isVoid_def mailer_with_default_def)
  have d: "callbacks (send mailer_with_default delivering_transport
        (Obj (fmap_of_list [(''to'', Str [])])) Undefined)
      = [(Some (ValidationError ''mail.to'' ''string''), Undefined)]"
    by (simp add: send_eval)
  from a b c d
    send_rejects_before_transport
      [of mailer_with_default "Obj (fmap_of_list [(''to'', Str [])])" Undefined
          delivering_transport]
    send_rejects_before_transport
      [of mailer_with_default "Obj (fmap_of_list [(''cc'', Str ''c@example.com'')])"
          Undefined delivering_transport]
    send_rejects_before_transport
      [of mailer_with_default "Obj (fmap_of_list [(''to'', Str ''a@example.com'')])"
          Undefined delivering_transport]
  show ?thesis by blast
qed

text \<open>
  Claim C5, as amended. When a check of section 4.2 fails, \<open>send\<close> invokes the callback
  itself, exactly once and with a ValidationError, and does not contact the transport,
  whatever the transport would do. When every check passes, it hands the callback to
  the transport together with one message, and the callback is invoked as the transport
  invokes it. So whenever the transport invokes the callback it is given exactly once,
  as its contract says, the callback of \<open>send\<close> is invoked exactly once: with an error or
  with a result, not both and not neither.
\<close>

theorem send_callback_once:
  "(\<not> passes_every_check this mail att \<longrightarrow>
      (\<exists>p t. callbacks (send this sendMail mail att)
                = [(Some (ValidationError p t), Undefined)])
      \<and> sendMail_calls (send this sendMail mail att) = [])
   \<and> (passes_every_check this mail att \<longrightarrow>
        sendMail_calls (send this sendMail mail att) = [forwarded this mail att]
        \<and> callbacks (send this sendMail mail att) = sendMail (forwarded this mail att))
   \<and> (length (sendMail (forwarded this mail att)) = 1 \<longrightarrow>
        length (callbacks (send this sendMail mail att)) = 1)"
proof (cases "first_violated this mail att")
  case None
  then have p: "passes_every_check this mail att" by (simp add: passes_every_check_iff)
  show ?thesis unfolding send_first_violated_None[OF None] using p by simp
next
  case (Some c)
  then have p: "\<not> passes_every_check this mail att" by (simp add: passes_every_check_iff)
  show ?thesis
    unfolding send_first_violated_Some[OF Some] using p
    by (cases c) (simp_all add: reject_def)
qed

theorem send_callback_once_witness:
  "\<not> passes_every_check mailer_without_default (Obj fmempty) Undefined
   \<and> callbacks (send mailer_without_default silent_transport (Obj fmempty) Undefined)
       = [(Some (ValidationError ''mail.to'' ''string''), Undefined)]
   \<and> sendMail_calls (send mailer_without_default silent_transport (Obj fmempty) Undefined)
       = []
   \<and> passes_every_check mailer_without_default
      (Obj (fmap_of_list [(''to'', Str ''x@example.com''), (''from'', Str ''y@example.com'')]))
      Undefined
   \<and> length (delivering_transport (forwarded mailer_without_default
      (Obj (fmap_of_list [(''to'', Str ''x@example.com''), (''from'', Str ''y@example.com'')]))
      Undefined)) = 1
   \<and> length (callbacks (send mailer_without_default delivering_transport
      (Obj (fmap_of_list [(''to'', Str ''x@example.com''), (''from'', Str ''y@example.com'')]))
      Undefined)) = 1
   \<and> callbacks (send mailer_without_default delivering_transport
      (Obj (fmap_of_list [(''to'', Str ''x@example.com''), (''from'', Str ''y@example.com'')]))
      Undefined) = [(None, Str ''250 OK'')]"
proof -
  have f: "\<not> passes_every_check mailer_without_default (Obj fmempty) Undefined"
    by (simp add: passes_every_check_def check_to_def get_def isVoid_def)
  have fv: "callbacks (send mailer_without_default silent_transport (Obj fmempty) Undefined)
       = [(Some (ValidationError ''mail.to'' ''string''), Undefined)]"
    by (simp add: send_eval)
  have p: "passes_every_check mailer_without_default
      (Obj (fmap_of_list [(''to'', Str ''x@example.com''), (''from'', Str ''y@example.com'')]))
      Undefined"
    by (simp add: passes_every_check_def check_object_def check_to_def check_from_def
        check_optional_strings_def optional_string_def check_attachments_def get_def
        isVoid_def)
  have h: "length (delivering_transport (forwarded mailer_without_default
      (Obj (fmap_of_list [(''to'', Str ''x@example.com''), (''from'', Str ''y@example.com'')]))
      Undefined)) = 1"
    by (simp add: delivering_transport_def)
  have v: "delivering_transport (forwarded mailer_without_default
      (Obj (fmap_of_list [(''to'', Str ''x@example.com''), (''from'', Str ''y@example.com'')]))
      Undefined) = [(None, Str ''250 OK'')]"
    by (simp add: delivering_transport_def)
  from f fv p h v
    send_callback_once[of mailer_without_default "Obj fmempty" Undefined silent_transport]
    send_callback_once[of mailer_without_default
      "Obj (fmap_of_list [(''to'', Str ''x@example.com''), (''from'', Str ''y@example.com'')])"
      Undefined delivering_transport]
  show ?thesis by metis
qed

text \<open>
  For any transport behaviour, as the claim was stated, this fails: \<open>send\<close> relays the
  callback and keeps no count of its own, so a transport that accepts a valid message
  and never calls back leaves the callback of \<open>send\<close> uninvoked.
\<close>

theorem send_callback_once_counterexample:
  "passes_every_check mailer_without_default
      (Obj (fmap_of_list [(''to'', Str ''x@example.com''), (''from'', Str ''y@example.com'')]))
      Undefined
   \<and> sendMail_calls (send mailer_without_default silent_transport
      (Obj (fmap_of_list [(''to'', Str ''x@example.com''), (''from'', Str ''y@example.com'')]))
      Undefined)
     = [fmap_of_list [(''to'', Str ''x@example.com''), (''from'', Str ''y@example.com''),
                      (''attachments'', Undefined)]]
   \<and> length (callbacks (send mailer_without_default silent_transport
      (Obj (fmap_of_list [(''to'', Str ''x@example.com''), (''from'', Str ''y@example.com'')]))
      Undefined)) = 0"
  by (simp add: send_eval passes_every_check_def check_object_def check_to_def check_from_def
      check_optional_strings_def optional_string_def check_attachments_def
      fmupd_reorder_neq)

text \<open>
  Claim C9. On the success path with \<open>from\<close> omitted (a default sender is then
  configured), \<open>send\<close> writes the default sender into the \<open>from\<close> of the caller's own mail
  object, which is therefore not what it was, and hands the transport one message: the
  properties of the updated mail, \<open>from\<close> included, and the attachments under
  \<open>attachments\<close>. The mail object itself does not get the attachments.
\<close>

theorem send_substitutes_in_place:
  assumes "passes_every_check this mail att" and "isVoid (member mail ''from'')"
  shows "truthy (noreply this)
         \<and> (\<exists>m. mail = Obj m
               \<and> mail_after (send this sendMail mail att)
                   = Obj (fmupd ''from'' (noreply this) m)
               \<and> sendMail_calls (send this sendMail mail att)
                   = [fmupd ''attachments'' att (fmupd ''from'' (noreply this) m)])
         \<and> member (mail_after (send this sendMail mail att)) ''from'' = noreply this
         \<and> mail_after (send this sendMail mail att) \<noteq> mail
         \<and> (\<forall>message k. message \<in> set (sendMail_calls (send this sendMail mail att)) \<longrightarrow>
               get message k =
                 (if k = ''attachments'' then att
                  else if k = ''from'' then noreply this
                  else member mail k))"
proof -
  from assms have n: "first_violated this mail att = None"
    by (simp add: passes_every_check_iff)
  from assms obtain m where m: "mail = Obj m"
    by (cases mail) (simp_all add: passes_every_check_def check_object_def)
  from assms(2) have nt: "\<not> truthy (member mail ''from'')" by (rule isVoid_not_truthy)
  from assms nt have t: "truthy (noreply this)"
    by (auto simp: passes_every_check_def check_from_def dest: isString_nonempty_truthy)
  from t have nu: "noreply this \<noteq> Undefined" "noreply this \<noteq> Null" by auto
  from assms(2) nu have "get m ''from'' \<noteq> noreply this"
    by (auto simp: m isVoid_def)
  with nu have ch: "fmupd ''from'' (noreply this) m \<noteq> m" by (rule_tac fmupd_changes)
  have r: "send this sendMail mail att =
      \<lparr> callbacks = sendMail (fmupd ''attachments'' att (fmupd ''from'' (noreply this) m)),
        sendMail_calls = [fmupd ''attachments'' att (fmupd ''from'' (noreply this) m)],
        mail_after = Obj (fmupd ''from'' (noreply this) m) \<rparr>"
    unfolding send_first_violated_None[OF n]
    using nt by (simp add: m or_js_def forwarded_def)
  show ?thesis
    unfolding r using t ch by (simp add: m get_fmupd)
qed

theorem send_substitutes_in_place_witness:
  "passes_every_check mailer_with_default
      (Obj (fmap_of_list [(''to'', Str ''a@example.com'')])) (Arr [])
   \<and> isVoid (member (Obj (fmap_of_list [(''to'', Str ''a@example.com'')])) ''from'')
   \<and> mail_after (send mailer_with_default delivering_transport
        (Obj (fmap_of_list [(''to'', Str ''a@example.com'')])) (Arr []))
      = Obj (fmupd ''from'' (Str ''noreply@example.com'')
               (fmap_of_list [(''to'', Str ''a@example.com'')]))
   \<and> mail_after (send mailer_with_default delivering_transport
        (Obj (fmap_of_list [(''to'', Str ''a@example.com'')])) (Arr []))
      \<noteq> Obj (fmap_of_list [(''to'', Str ''a@example.com'')])
   \<and> sendMail_calls (send mailer_with_default delivering_transport
        (Obj (fmap_of_list [(''to'', Str ''a@example.com'')])) (Arr []))
      = [fmupd ''attachments'' (Arr [])
           (fmupd ''from'' (Str ''noreply@example.com'')
              (fmap_of_list [(''to'', Str ''a@example.com'')]))]
   \<and> get (fmupd ''attachments'' (Arr [])
           (fmupd ''from'' (Str ''noreply@example.com'')
              (fmap_of_list [(''to'', Str ''a@example.com'')]))) ''to''
      = Str ''a@example.com''"
proof -
  have a: "passes_every_check mailer_with_default
      (Obj (fmap_of_list [(''to'', Str ''a@example.com'')])) (Arr [])"
    by (simp add: passes_every_check_def check_object_def check_to_def check_from_def
        check_optional_strings_def optional_string_def check_attachments_def get_def
        isVoid_def mailer_with_default_def)
  have b: "isVoid (member (Obj (fmap_of_list [(''to'', Str ''a@example.com'')])) ''from'')"
    by (simp add: get_def isVoid_def)
  have c: "noreply mailer_with_default = Str ''noreply@example.com''"
    by (simp add: mailer_with_default_def)
  have g: "get (fmupd ''attachments'' (Arr [])
           (fmupd ''from'' (Str ''noreply@example.com'')
              (fmap_of_list [(''to'', Str ''a@example.com'')]))) ''to''
      = Str ''a@example.com''"
    by (simp add: get_def)
  note th = send_substitutes_in_place[OF a b, of delivering_transport]
  from th obtain m where m: "Obj (fmap_of_list [(''to'', Str ''a@example.com'')]) = Obj m"
    and ma: "mail_after (send mailer_with_default delivering_transport
        (Obj (fmap_of_list [(''to'', Str ''a@example.com'')])) (Arr []))
      = Obj (fmupd ''from'' (noreply mailer_with_default) m)"
    and sc: "sendMail_calls (send mailer_with_default delivering_transport
        (Obj (fmap_of_list [(''to'', Str ''a@example.com'')])) (Arr []))
      = [fmupd ''attachments'' (Arr []) (fmupd ''from'' (noreply mailer_with_default) m)]"
    by blast
  from m have m': "m = fmap_of_list [(''to'', Str ''a@example.com'')]" by (rule_tac sym) auto
  from th have ne: "mail_after (send mailer_with_default delivering_transport
        (Obj (fmap_of_list [(''to'', Str ''a@example.com'')])) (Arr []))
      \<noteq> Obj (fmap_of_list [(''to'', Str ''a@example.com'')])" by blast
  from a b g ne ma[unfolded m' c] sc[unfolded m' c] show ?thesis by blast
qed

section \<open>Construction and the declared properties\<close>

lemma then_do_Inr_iff: "(then_do r f = Inr y) = (\<exists>x. r = Inr x \<and> f x = Inr y)"
  by (cases r) (simp_all add: then_do_def)

lemma assign_Inr_iff:
  "(assign p val this = Inr t) =
     (t = prop_store p (prop_set p this val) this
      \<and> (\<forall>validate. prop_validate p = Some validate \<longrightarrow>
             \<not> truthy (validate (prop_set p this val))))"
  by (cases "prop_validate p") (auto simp: assign_def Let_def)

lemma validate_simps:
  "truthy (auth_validate v) = (\<not> isObject v)"
  "truthy (hostname_validate v) = (\<not> isString v Undefined)"
  "truthy (name_validate v) = (\<not> isVoid v \<and> \<not> isString v Undefined)"
  "truthy (noreply_validate v) = (\<not> isVoid v \<and> \<not> isString v Undefined)"
  "truthy (port_validate v) = (\<not> isVoid v \<and> \<not> isInt v (Bool True))"
  "truthy (tls_validate v) = (\<not> isVoid v \<and> \<not> isObject v)"
  "truthy (transporter_validate v) = (\<not> isObject v)"
  by (simp_all add: auth_validate_def hostname_validate_def name_validate_def
      noreply_validate_def port_validate_def tls_validate_def transporter_validate_def
      and_js_def)

lemma or_js_Undefined: "or_js Undefined v = v"
  by (simp add: or_js_def)

lemma truthy_or_js_False: "truthy (or_js v (Bool False)) = truthy v"
  by (simp add: or_js_def)

lemma new_XPMailer_InrD:
  assumes "new_XPMailer createTransport opts = Inr m"
  shows "\<exists>handle.
     m = \<lparr> options = Obj opts, auth = get opts ''auth'',
           hostname = or_js (get opts ''hostname'') (Str ''localhost''),
           name = or_js (get opts ''name'') Null,
           noreply = or_js (get opts ''noreply'') Null,
           port = or_js (get opts ''port'') Null,
           secure = Bool (truthy (get opts ''secure'')),
           tls = or_js (get opts ''tls'') (Obj fmempty),
           transporter = handle \<rparr>
     \<and> isObject handle
     \<and> isObject (auth m)
     \<and> isString (hostname m) Undefined
     \<and> (isVoid (name m) \<or> isString (name m) Undefined)
     \<and> (isVoid (noreply m) \<or> isString (noreply m) Undefined)
     \<and> (isVoid (port m) \<or> isInt (port m) (Bool True))
     \<and> (isVoid (tls m) \<or> isObject (tls m))"
  using assms
  unfolding new_XPMailer_def initialize_def Let_def then_do_Inr_iff assign_Inr_iff
  by (clarsimp simp: fresh_def validate_simps auth_set_def hostname_set_def name_set_def
      noreply_set_def port_set_def secure_set_def tls_set_def transporter_set_def
      isDefined_def Boolean_def or_js_Undefined truthy_or_js_False)

lemma isString_truthy_nonempty: "isString v Undefined \<Longrightarrow> truthy v \<Longrightarrow> isString v (Bool True)"
  by (cases v) (simp_all add: isVoid_def)

lemma truthy_or_js: "truthy d \<Longrightarrow> truthy (or_js x d)"
  by (simp add: or_js_def)

lemma or_js_Null: "or_js x Null = Null \<or> truthy (or_js x Null)"
  by (simp add: or_js_def)

lemma isVoid_or_js_Null: "isVoid (or_js x Null) \<Longrightarrow> or_js x Null = Null"
  by (auto simp: or_js_def isVoid_def)

lemma or_js_truthy: "truthy a \<Longrightarrow> or_js a b = a"
  by (simp add: or_js_def)

lemma isObject_truthy: "isObject v \<Longrightarrow> truthy v"
  by (cases v) simp_all

lemma new_XPMailer_configured:
  assumes "new_XPMailer createTransport opts = Inr m"
  shows "configured m"
proof -
  from new_XPMailer_InrD[OF assms] obtain handle where
    m: "m = \<lparr> options = Obj opts, auth = get opts ''auth'',
           hostname = or_js (get opts ''hostname'') (Str ''localhost''),
           name = or_js (get opts ''name'') Null,
           noreply = or_js (get opts ''noreply'') Null,
           port = or_js (get opts ''port'') Null,
           secure = Bool (truthy (get opts ''secure'')),
           tls = or_js (get opts ''tls'') (Obj fmempty),
           transporter = handle \<rparr>"
    and v: "isObject handle" "isObject (auth m)" "isString (hostname m) Undefined"
      "isVoid (name m) \<or> isString (name m) Undefined"
      "isVoid (noreply m) \<or> isString (noreply m) Undefined"
      "isVoid (port m) \<or> isInt (port m) (Bool True)"
      "isVoid (tls m) \<or> isObject (tls m)"
    by blast
  have h: "isString (hostname m) (Bool True)"
    using v(3) by (intro isString_truthy_nonempty) (simp_all add: m truthy_or_js)
  have n: "name m = Null \<or> isString (name m) (Bool True)"
    using v(4) or_js_Null[of "get opts ''name''"]
    by (auto simp: m dest: isVoid_or_js_Null isString_truthy_nonempty)
  have nr: "noreply m = Null \<or> isString (noreply m) (Bool True)"
    using v(5) or_js_Null[of "get opts ''noreply''"]
    by (auto simp: m dest: isVoid_or_js_Null isString_truthy_nonempty)
  have p: "port m = Null \<or> isInt (port m) (Bool True)"
    using v(6) by (auto simp: m dest: isVoid_or_js_Null)
  have t: "isObject (tls m)"
    using v(7) truthy_or_js[of "Obj fmempty" "get opts ''tls''"]
    by (auto simp: m isVoid_def)
  have s: "secure m = Bool True \<or> secure m = Bool False" by (auto simp: m)
  have tr: "isObject (transporter m)" using v(1) by (simp add: m)
  from v(2) h n nr p t s tr show ?thesis unfolding configured_def by blast
qed

lemma isString_nonempty_isString: "isString v (Bool True) \<Longrightarrow> isString v Undefined"
  by (cases v) (simp_all add: isVoid_def)

lemma isString_defined: "isString v b \<Longrightarrow> v \<noteq> Undefined"
  by (cases v) simp_all

lemma isInt_defined: "isInt v b \<Longrightarrow> v \<noteq> Undefined"
  by (cases v) simp_all

lemma assign_configured:
  assumes "configured this"
  shows "assign p val this = Inr this"
proof (cases p)
  case Auth
  from assms have "isObject (auth this)" by (simp add: configured_def)
  with Auth show ?thesis
    by (simp add: assign_Inr_iff validate_simps auth_set_def or_js_truthy isObject_truthy)
next
  case Hostname
  from assms have "isString (hostname this) (Bool True)" by (simp add: configured_def)
  with Hostname show ?thesis
    by (simp add: assign_Inr_iff validate_simps hostname_set_def or_js_truthy
        isString_nonempty_truthy isString_nonempty_isString)
next
  case Name
  from assms have "name this = Null \<or> isString (name this) (Bool True)"
    by (simp add: configured_def)
  then have "name this \<noteq> Undefined" "isVoid (name this) \<or> isString (name this) Undefined"
    by (auto simp: isVoid_def dest: isString_defined isString_nonempty_isString)
  with Name show ?thesis
    by (simp add: assign_Inr_iff validate_simps name_set_def isDefined_def)
next
  case Noreply
  from assms have "noreply this = Null \<or> isString (noreply this) (Bool True)"
    by (simp add: configured_def)
  then have "noreply this \<noteq> Undefined"
      "isVoid (noreply this) \<or> isString (noreply this) Undefined"
    by (auto simp: isVoid_def dest: isString_defined isString_nonempty_isString)
  with Noreply show ?thesis
    by (simp add: assign_Inr_iff validate_simps noreply_set_def isDefined_def)
next
  case Port
  from assms have "port this = Null \<or> isInt (port this) (Bool True)"
    by (simp add: configured_def)
  then have "port this \<noteq> Undefined" "isVoid (port this) \<or> isInt (port this) (Bool True)"
    by (auto simp: isVoid_def dest: isInt_defined)
  with Port show ?thesis
    by (simp add: assign_Inr_iff validate_simps port_set_def isDefined_def)
next
  case Secure
  from assms have "secure this = Bool True \<or> secure this = Bool False"
    by (simp add: configured_def)
  then have "secure this \<noteq> Undefined" by auto
  with Secure show ?thesis
    by (simp add: assign_Inr_iff secure_set_def isDefined_def)
next
  case Tls
  from assms have "isObject (tls this)" by (simp add: configured_def)
  with Tls show ?thesis
    by (simp add: assign_Inr_iff validate_simps tls_set_def or_js_truthy isObject_truthy)
next
  case Transporter
  from assms have "isObject (transporter this)" by (simp add: configured_def)
  with Transporter show ?thesis
    by (simp add: assign_Inr_iff validate_simps transporter_set_def or_js_truthy
        isObject_truthy)
qed

lemma configured_options: "configured (this\<lparr>options := x\<rparr>) = configured this"
  by (simp add: configured_def)

lemma transport_options_options:
  "transport_options (this\<lparr>options := x\<rparr>) = transport_options this"
  by (simp add: transport_options_def)

lemma then_do_Inr: "then_do (Inr x) f = f x"
  by (simp add: then_do_def)

lemma initialize_configured:
  assumes "configured this"
  shows "initialize createTransport opts this
           = then_do (createTransport (transport_options this))
               (\<lambda>handle. Inr (this\<lparr>options := Obj opts\<rparr>))"
proof -
  from assms have c: "configured (this\<lparr>options := Obj opts\<rparr>)"
    by (simp add: configured_options)
  show ?thesis
    unfolding initialize_def Let_def
    by (simp only: assign_configured[OF c] then_do_Inr transport_options_options)
qed

section \<open>The claims about construction\<close>

lemmas initialize_eval = new_XPMailer_def initialize_def fresh_def assign_def then_do_def
  stub_createTransport_def get_def or_js_def and_js_def
  auth_set_def auth_validate_def hostname_set_def hostname_validate_def
  name_set_def name_validate_def noreply_set_def noreply_validate_def
  port_set_def port_validate_def secure_set_def tls_set_def tls_validate_def
  transporter_set_def transporter_validate_def isVoid_def isDefined_def Boolean_def
  Let_def

text \<open>The two instances used as examples are what construction returns.\<close>

lemma new_mailer_without_default:
  "new_XPMailer stub_createTransport (fmap_of_list [(''auth'', Obj fmempty)])
     = Inr mailer_without_default"
  by (simp add: initialize_eval mailer_without_default_def)

lemma new_mailer_with_default:
  "new_XPMailer stub_createTransport
     (fmap_of_list [(''auth'', Obj fmempty), (''noreply'', Str ''noreply@example.com'')])
     = Inr mailer_with_default"
  by (simp add: initialize_eval mailer_with_default_def)

text \<open>
  Claim C6. When construction succeeds on a configuration record that omits
  \<open>hostname\<close> (the property reads as \<open>undefined\<close>), the instance has the hostname
  \<open>localhost\<close>; when it omits \<open>secure\<close>, \<open>secure\<close> is \<open>false\<close>; when it omits \<open>tls\<close>, \<open>tls\<close> is
  the empty object.
\<close>

theorem initialize_defaults:
  assumes "new_XPMailer createTransport opts = Inr m"
  shows "(get opts ''hostname'' = Undefined \<longrightarrow> hostname m = Str ''localhost'')
         \<and> (get opts ''secure'' = Undefined \<longrightarrow> secure m = Bool False)
         \<and> (get opts ''tls'' = Undefined \<longrightarrow> tls m = Obj fmempty)"
proof -
  from new_XPMailer_InrD[OF assms] have
    "hostname m = or_js (get opts ''hostname'') (Str ''localhost'')"
    "secure m = Bool (truthy (get opts ''secure''))"
    "tls m = or_js (get opts ''tls'') (Obj fmempty)"
    by auto
  then show ?thesis by (simp add: or_js_Undefined)
qed

theorem initialize_defaults_witness:
  "new_XPMailer stub_createTransport options_auth_only
     = Inr \<lparr> options = Obj options_auth_only,
             auth = Obj (fmap_of_list [(''user'', Str ''a''), (''pass'', Str ''b'')]),
             hostname = Str ''localhost'', name = Null, noreply = Null, port = Null,
             secure = Bool False, tls = Obj fmempty, transporter = Obj fmempty \<rparr>
   \<and> get options_auth_only ''hostname'' = Undefined
   \<and> get options_auth_only ''secure'' = Undefined
   \<and> get options_auth_only ''tls'' = Undefined
   \<and> hostname \<lparr> options = Obj options_auth_only,
             auth = Obj (fmap_of_list [(''user'', Str ''a''), (''pass'', Str ''b'')]),
             hostname = Str ''localhost'', name = Null, noreply = Null, port = Null,
             secure = Bool False, tls = Obj fmempty, transporter = Obj fmempty \<rparr>
       = Str ''localhost''"
proof -
  have c: "new_XPMailer stub_createTransport options_auth_only
     = Inr \<lparr> options = Obj options_auth_only,
             auth = Obj (fmap_of_list [(''user'', Str ''a''), (''pass'', Str ''b'')]),
             hostname = Str ''localhost'', name = Null, noreply = Null, port = Null,
             secure = Bool False, tls = Obj fmempty, transporter = Obj fmempty \<rparr>"
    by (simp add: initialize_eval options_auth_only_def)
  have g: "get options_auth_only ''hostname'' = Undefined
     \<and> get options_auth_only ''secure'' = Undefined
     \<and> get options_auth_only ''tls'' = Undefined"
    by (simp add: options_auth_only_def get_def)
  from initialize_defaults[OF c] c g show ?thesis by blast
qed

text \<open>
  Claim C7. When \<open>auth\<close> is missing from the configuration record, or is not a structured
  object, construction fails with a ValidationError naming \<open>auth\<close> and the expected
  type Object, whatever the other options and the transport factory are.
\<close>

theorem initialize_requires_auth:
  assumes "\<not> isObject (get opts ''auth'')"
  shows "new_XPMailer createTransport opts = Inl (ValidationError ''auth'' ''Object'')"
  using assms
  by (simp add: new_XPMailer_def initialize_def Let_def fresh_def assign_def auth_set_def
      or_js_Undefined auth_validate_def and_js_def then_do_def)

theorem initialize_requires_auth_witness:
  "\<not> isObject (get fmempty ''auth'')
   \<and> new_XPMailer stub_createTransport fmempty = Inl (ValidationError ''auth'' ''Object'')
   \<and> \<not> isObject (get (fmap_of_list [(''auth'', Str ''secret''), (''hostname'', Str ''h'')])
          ''auth'')
   \<and> new_XPMailer stub_createTransport
        (fmap_of_list [(''auth'', Str ''secret''), (''hostname'', Str ''h'')])
      = Inl (ValidationError ''auth'' ''Object'')"
proof -
  have a: "\<not> isObject (get fmempty ''auth'')" by (simp add: get_def)
  have b: "\<not> isObject (get (fmap_of_list [(''auth'', Str ''secret''), (''hostname'', Str ''h'')])
          ''auth'')"
    by (simp add: get_def)
  from a b initialize_requires_auth[OF a, of stub_createTransport]
    initialize_requires_auth[OF b, of stub_createTransport]
  show ?thesis by blast
qed

text \<open>
  Claim C8. On an instance whose construction has succeeded, every declared property is
  write-once: an assignment of any value to any of them succeeds and leaves the
  instance as it was. Running \<open>initialize\<close> again with other options changes nothing
  but the plain field \<open>options\<close> (and fails only if the transport factory throws): the
  hostname, and every other property, keeps the value of the first configuration.
\<close>

theorem configuration_write_once:
  assumes "new_XPMailer createTransport opts = Inr m"
  shows "assign p val m = Inr m
         \<and> initialize createTransport' opts' m
             = then_do (createTransport' (transport_options m))
                 (\<lambda>handle. Inr (m\<lparr>options := Obj opts'\<rparr>))
         \<and> (\<forall>m'. initialize createTransport' opts' m = Inr m' \<longrightarrow>
               hostname m' = hostname m \<and> (\<forall>q. prop_value q m' = prop_value q m))
         \<and> hostname m = or_js (get opts ''hostname'') (Str ''localhost'')"
proof -
  have c: "configured m" using assms by (rule new_XPMailer_configured)
  have i: "initialize createTransport' opts' m
             = then_do (createTransport' (transport_options m))
                 (\<lambda>handle. Inr (m\<lparr>options := Obj opts'\<rparr>))"
    using c by (rule initialize_configured)
  have j: "hostname m' = hostname m \<and> (\<forall>q. prop_value q m' = prop_value q m)"
    if "initialize createTransport' opts' m = Inr m'" for m'
  proof -
    from that i have "m' = m\<lparr>options := Obj opts'\<rparr>"
      by (auto simp: then_do_Inr_iff)
    then show ?thesis
    proof (intro conjI allI)
      fix q assume "m' = m\<lparr>options := Obj opts'\<rparr>"
      then show "prop_value q m' = prop_value q m" by (cases q) simp_all
    qed simp
  qed
  from new_XPMailer_InrD[OF assms]
  have h: "hostname m = or_js (get opts ''hostname'') (Str ''localhost'')" by auto
  from assign_configured[OF c, of p val] i j h show ?thesis by blast
qed

theorem configuration_write_once_witness:
  "new_XPMailer stub_createTransport options_first = Inr mailer_first
   \<and> assign Hostname (Str ''second.example.com'') mailer_first = Inr mailer_first
   \<and> initialize stub_createTransport options_second mailer_first
       = Inr (mailer_first\<lparr>options := Obj options_second\<rparr>)
   \<and> get options_second ''hostname'' = Str ''second.example.com''
   \<and> hostname (mailer_first\<lparr>options := Obj options_second\<rparr>) = Str ''first.example.com''"
proof -
  have c: "new_XPMailer stub_createTransport options_first = Inr mailer_first"
    by (simp add: initialize_eval options_first_def mailer_first_def)
  have t: "then_do (stub_createTransport (transport_options mailer_first))
             (\<lambda>handle. Inr (mailer_first\<lparr>options := Obj options_second\<rparr>))
           = Inr (mailer_first\<lparr>options := Obj options_second\<rparr>)"
    by (simp add: stub_createTransport_def then_do_def)
  have g: "get options_second ''hostname'' = Str ''second.example.com''"
    by (simp add: options_second_def get_def)
  have f: "hostname (mailer_first\<lparr>options := Obj options_second\<rparr>) = Str ''first.example.com''"
    by (simp add: mailer_first_def)
  from configuration_write_once[OF c, of Hostname "Str ''second.example.com''"
      stub_createTransport options_second] c t g f
  show ?thesis by metis
qed

section \<open>The first release\<close>

text \<open>
  In \<open>lib/index.js\<close> the sender is required and is checked before the recipient: the
  empty message is rejected for its \<open>from\<close>. The error reported for a malformed \<open>bcc\<close>
  names \<open>cc\<close> there as well.
\<close>

lemma send_lib_index_from_first:
  "callbacks (send_lib_index delivering_transport (Obj fmempty) Undefined)
     = [(Some (XPError 500 ''\"email.from\" must be string.''), Undefined)]"
  by (simp add: send_lib_index_def reject_def get_def)

lemma send_lib_index_bcc:
  "callbacks (send_lib_index delivering_transport
      (Obj (fmap_of_list [(''to'', Str ''a@example.com''), (''from'', Str ''b@example.com''),
                          (''bcc'', Num 5)])) Undefined)
     = [(Some (XPError 500 ''\"email.cc\" must be string.''), Undefined)]"
  by (simp add: send_lib_index_def reject_def get_def isVoid_def)

end
